theory Spec2Isabelle
  imports Complex_Main
begin

section \<open>JavaScript values reaching the component\<close>

text \<open>
  The component \<^verbatim>\<open>WeatherDataGraphs.jsx\<close> is dynamically typed: every prop may hold any
  value. The values modelled are the data values a host passes as props: \<^verbatim>\<open>undefined\<close>,
  \<^verbatim>\<open>null\<close>, booleans, numbers, strings, arrays, plain objects and \<^verbatim>\<open>Date\<close> objects.
  Numbers are the integral ones plus \<^verbatim>\<open>NaN\<close>: the source computes with the fields of a
  date only and copies the samples it is given. A plain object is the list of its own
  properties, as \<^verbatim>\<open>JSON.parse\<close> builds it on the prototype of all objects, and every
  property value is again one of these values, so no property holds a function: an
  object with a property \<^verbatim>\<open>toString\<close> of its own has lost the inherited conversion to a
  string. Symbols and functions are outside the model. A
  \<^verbatim>\<open>Date\<close> carries its time value in milliseconds since the epoch, \<open>None\<close> for an invalid
  date.
\<close>

datatype jsnum = Num int | NaN

datatype jsval =
    JUndefined
  | JNull
  | JBool bool
  | JNum jsnum
  | JStr string
  | JArr "jsval list"
  | JObj "(string \<times> jsval) list"
  | JDate "int option"

datatype exn = TypeError

text \<open>
  What the runtime decides and the source does not: how \<^verbatim>\<open>Date.parse\<close> reads a string
  (\<open>None\<close> is \<^verbatim>\<open>NaN\<close>), how a \<^verbatim>\<open>Date\<close> prints, how an integer beyond the safe range
  prints (the shortest digits that read back as the same double), and the local-time
  fields of a time value (they depend on the time zone of the machine).
\<close>

record js_env =
  dateParse :: "string \<Rightarrow> int option"
  dateToString :: "int option \<Rightarrow> string"
  numberToString :: "int \<Rightarrow> string"
  localMonth :: "int \<Rightarrow> nat"
  localDate :: "int \<Rightarrow> nat"
  localHours :: "int \<Rightarrow> nat"
  localMinutes :: "int \<Rightarrow> nat"

subsection \<open>Sequencing of operations that may throw\<close>

fun and_then :: "exn + 'a \<Rightarrow> ('a \<Rightarrow> exn + 'b) \<Rightarrow> exn + 'b" where
  "and_then (Inl e) f = Inl e"
| "and_then (Inr a) f = f a"

subsection \<open>Truthiness, \<^verbatim>\<open>Array.isArray\<close>, property reads\<close>

fun truthy :: "jsval \<Rightarrow> bool" where
  "truthy JUndefined = False"
| "truthy JNull = False"
| "truthy (JBool b) = b"
| "truthy (JNum (Num n)) = (n \<noteq> 0)"
| "truthy (JNum NaN) = False"
| "truthy (JStr s) = (s \<noteq> [])"
| "truthy (JArr xs) = True"
| "truthy (JObj kvs) = True"
| "truthy (JDate d) = True"

fun isArray :: "jsval \<Rightarrow> bool" where
  "isArray (JArr xs) = True"
| "isArray v = False"

fun digits :: "nat \<Rightarrow> string" where
  "digits n = (if n < 10 then [''0123456789'' ! n]
               else digits (n div 10) @ [''0123456789'' ! (n mod 10)])"

declare digits.simps [simp del]

definition plain_decimal :: "int \<Rightarrow> string" where
  "plain_decimal n = (if n < 0 then ''-'' @ digits (nat (- n)) else digits (nat n))"

text \<open>
  \<^verbatim>\<open>String(n)\<close> for a number. A safe integer, one of absolute value at most \<open>2\<^sup>5\<^sup>3 - 1\<close>,
  prints in plain decimal.
\<close>

definition safe_integer :: "int \<Rightarrow> bool" where
  "safe_integer n = (\<bar>n\<bar> \<le> 9007199254740991)"

fun number_to_string :: "js_env \<Rightarrow> jsnum \<Rightarrow> string" where
  "number_to_string env NaN = ''NaN''"
| "number_to_string env (Num n) =
     (if safe_integer n then plain_decimal n else numberToString env n)"

text \<open>
  The conversion of a value to a string, inside a template literal and inside
  \<^verbatim>\<open>new Date(v)\<close>. A plain object prints as \<^verbatim>\<open>[object Object]\<close> through the inherited
  \<^verbatim>\<open>toString\<close>; when it has a property \<^verbatim>\<open>toString\<close> of its own, that property is not a
  function, no method gives a primitive and the conversion throws a \<^verbatim>\<open>TypeError\<close>. An
  array joins its elements with commas, \<^verbatim>\<open>null\<close> and \<^verbatim>\<open>undefined\<close> elements printing as
  nothing; the elements are converted in order and the first exception ends the
  conversion.
\<close>

fun to_string :: "js_env \<Rightarrow> jsval \<Rightarrow> exn + string"
  and join :: "js_env \<Rightarrow> jsval list \<Rightarrow> exn + string" where
  "to_string env JUndefined = Inr ''undefined''"
| "to_string env JNull = Inr ''null''"
| "to_string env (JBool b) = Inr (if b then ''true'' else ''false'')"
| "to_string env (JNum n) = Inr (number_to_string env n)"
| "to_string env (JStr s) = Inr s"
| "to_string env (JArr xs) = join env xs"
| "to_string env (JObj kvs) =
     (if map_of kvs ''toString'' = None then Inr ''[object Object]'' else Inl TypeError)"
| "to_string env (JDate d) = Inr (dateToString env d)"
| "join env [] = Inr []"
| "join env [x] = (if x = JUndefined \<or> x = JNull then Inr [] else to_string env x)"
| "join env (x # y # ys) =
     and_then (if x = JUndefined \<or> x = JNull then Inr [] else to_string env x) (\<lambda>s.
     and_then (join env (y # ys)) (\<lambda>r. Inr (s @ '','' @ r)))"

text \<open>
  The values whose conversion to a string returns: every value but an object with a
  property \<^verbatim>\<open>toString\<close> of its own and an array holding, at any depth, such an object.
\<close>

fun printable :: "jsval \<Rightarrow> bool"
  and printable_all :: "jsval list \<Rightarrow> bool" where
  "printable JUndefined = True"
| "printable JNull = True"
| "printable (JBool b) = True"
| "printable (JNum n) = True"
| "printable (JStr s) = True"
| "printable (JArr xs) = printable_all xs"
| "printable (JObj kvs) = (map_of kvs ''toString'' = None)"
| "printable (JDate d) = True"
| "printable_all [] = True"
| "printable_all (x # xs) = (printable x \<and> printable_all xs)"

text \<open>
  \<^verbatim>\<open>v[i]\<close> for an array index \<open>i\<close>. Reading a property of \<^verbatim>\<open>undefined\<close> or \<^verbatim>\<open>null\<close>
  throws a \<^verbatim>\<open>TypeError\<close>; an index past the end reads \<^verbatim>\<open>undefined\<close>.
\<close>

fun get_index :: "jsval \<Rightarrow> nat \<Rightarrow> exn + jsval" where
  "get_index JUndefined i = Inl TypeError"
| "get_index JNull i = Inl TypeError"
| "get_index (JArr xs) i = Inr (if i < length xs then xs ! i else JUndefined)"
| "get_index (JStr s) i = Inr (if i < length s then JStr [s ! i] else JUndefined)"
| "get_index (JObj kvs) i =
     Inr (case map_of kvs (digits i) of None \<Rightarrow> JUndefined | Some v \<Rightarrow> v)"
| "get_index v i = Inr JUndefined"

text \<open>
  \<^verbatim>\<open>v.name\<close> for a name that no built-in prototype defines (the source reads
  \<^verbatim>\<open>borderColor\<close> and \<^verbatim>\<open>backgroundColor\<close>): only a plain object can have it.
\<close>

fun get_prop :: "jsval \<Rightarrow> string \<Rightarrow> exn + jsval" where
  "get_prop JUndefined name = Inl TypeError"
| "get_prop JNull name = Inl TypeError"
| "get_prop (JObj kvs) name =
     Inr (case map_of kvs name of None \<Rightarrow> JUndefined | Some v \<Rightarrow> v)"
| "get_prop v name = Inr JUndefined"

text \<open>
  \<^verbatim>\<open>v.map(f)\<close> with a callback of element and index: the callback runs on the elements
  in order and the first exception ends the call. A value without a \<^verbatim>\<open>map\<close> method
  throws.
\<close>

fun map_from :: "nat \<Rightarrow> (jsval \<Rightarrow> nat \<Rightarrow> exn + 'b) \<Rightarrow> jsval list \<Rightarrow> exn + 'b list" where
  "map_from i f [] = Inr []"
| "map_from i f (x # xs) =
     and_then (f x i) (\<lambda>y. and_then (map_from (Suc i) f xs) (\<lambda>ys. Inr (y # ys)))"

fun array_map :: "jsval \<Rightarrow> (jsval \<Rightarrow> nat \<Rightarrow> exn + 'b) \<Rightarrow> exn + 'b list" where
  "array_map (JArr xs) f = map_from 0 f xs"
| "array_map v f = Inl TypeError"

subsection \<open>Dates\<close>

definition timeClip :: "int \<Rightarrow> int option" where
  "timeClip t = (if \<bar>t\<bar> \<le> 8640000000000000 then Some t else None)"

text \<open>
  \<^verbatim>\<open>new Date(v)\<close>: a \<^verbatim>\<open>Date\<close> is copied, a string is parsed, an array or an object is
  converted to a string first, which may throw, and then parsed, anything else is taken
  as a number of milliseconds.
\<close>

fun new_Date :: "js_env \<Rightarrow> jsval \<Rightarrow> exn + int option" where
  "new_Date env (JDate d) = Inr d"
| "new_Date env (JStr s) = Inr (dateParse env s)"
| "new_Date env (JArr xs) = and_then (to_string env (JArr xs)) (\<lambda>s. Inr (dateParse env s))"
| "new_Date env (JObj kvs) = and_then (to_string env (JObj kvs)) (\<lambda>s. Inr (dateParse env s))"
| "new_Date env JUndefined = Inr None"
| "new_Date env JNull = Inr (timeClip 0)"
| "new_Date env (JBool b) = Inr (timeClip (if b then 1 else 0))"
| "new_Date env (JNum (Num n)) = Inr (timeClip n)"
| "new_Date env (JNum NaN) = Inr None"

definition getMonth :: "js_env \<Rightarrow> int option \<Rightarrow> jsnum" where
  "getMonth env d = (case d of None \<Rightarrow> NaN | Some t \<Rightarrow> Num (int (localMonth env t)))"

definition getDate :: "js_env \<Rightarrow> int option \<Rightarrow> jsnum" where
  "getDate env d = (case d of None \<Rightarrow> NaN | Some t \<Rightarrow> Num (int (localDate env t)))"

definition getHours :: "js_env \<Rightarrow> int option \<Rightarrow> jsnum" where
  "getHours env d = (case d of None \<Rightarrow> NaN | Some t \<Rightarrow> Num (int (localHours env t)))"

definition getMinutes :: "js_env \<Rightarrow> int option \<Rightarrow> jsnum" where
  "getMinutes env d = (case d of None \<Rightarrow> NaN | Some t \<Rightarrow> Num (int (localMinutes env t)))"

fun num_add :: "jsnum \<Rightarrow> jsnum \<Rightarrow> jsnum" where
  "num_add (Num a) (Num b) = Num (a + b)"
| "num_add a b = NaN"

text \<open>\<^verbatim>\<open>s.padStart(n, pad)\<close>: the filler is repeated and cut to the missing length.\<close>

definition padStart :: "string \<Rightarrow> nat \<Rightarrow> string \<Rightarrow> string" where
  "padStart s n pad =
     (if n \<le> length s \<or> pad = [] then s
      else take (n - length s) (concat (replicate (n - length s) pad)) @ s)"

section \<open>The formatter\<close>

definition formatTimestamp :: "js_env \<Rightarrow> jsval \<Rightarrow> exn + string" where
  "formatTimestamp env isoString =
     (if \<not> truthy isoString then Inr ''Invalid Timestamp''
      else
        and_then (new_Date env isoString) (\<lambda>date.
          let month =
                padStart (number_to_string env (num_add (getMonth env date) (Num 1))) 2 ''0'';
              day = padStart (number_to_string env (getDate env date)) 2 ''0'';
              hours = padStart (number_to_string env (getHours env date)) 2 ''0'';
              minutes = padStart (number_to_string env (getMinutes env date)) 2 ''0''
          in Inr (month @ ''-'' @ day @ '' '' @ hours @ '':'' @ minutes)))"

definition formatTimestamps :: "js_env \<Rightarrow> jsval \<Rightarrow> exn + string list" where
  "formatTimestamps env timestamps =
     (if \<not> isArray timestamps then Inr []
      else array_map timestamps (\<lambda>timestamp index. formatTimestamp env timestamp))"

text \<open>
  The default palette, an array of four color objects, and the chart input that
  \<^verbatim>\<open>formatData\<close> builds: the labels and one dataset per series name.
\<close>

definition defaultColors :: "jsval list" where
  "defaultColors =
     [JObj [(''borderColor'', JStr ''rgb(255, 206, 86)''),
            (''backgroundColor'', JStr ''rgba(255, 206, 86, 0.2)'')],
      JObj [(''borderColor'', JStr ''rgb(54, 162, 235)''),
            (''backgroundColor'', JStr ''rgba(54, 162, 235, 0.2)'')],
      JObj [(''borderColor'', JStr ''rgb(255, 99, 132)''),
            (''backgroundColor'', JStr ''rgba(255, 99, 132, 0.2)'')],
      JObj [(''borderColor'', JStr ''rgb(75, 192, 192)''),
            (''backgroundColor'', JStr ''rgba(75, 192, 192, 0.2)'')]]"

record dataset =
  label :: jsval
  data :: "jsval list"
  borderColor :: jsval
  backgroundColor :: jsval
  fill :: bool
  tension :: real

record chart_data =
  labels :: "string list"
  datasets :: "dataset list"

text \<open>A line written by \<^verbatim>\<open>console.error\<close>: the message and the object logged with it.\<close>

type_synonym console = "(string \<times> jsval) list"

text \<open>
  The callback of \<^verbatim>\<open>types.map\<close>, for the series name \<open>type\<close> at \<open>index\<close>. The color is
  the caller's when \<^verbatim>\<open>colors && colors[index]\<close> is truthy, the palette's otherwise. The
  template literal that adds the transparency is evaluated only when the caller's color
  has no truthy \<^verbatim>\<open>backgroundColor\<close>.
\<close>

definition dataset_of :: "js_env \<Rightarrow> jsval \<Rightarrow> jsval \<Rightarrow> jsval \<Rightarrow> nat \<Rightarrow> exn + dataset" where
  "dataset_of env dataArray colors type index =
     and_then (if truthy colors then get_index colors index else Inr colors) (\<lambda>given.
     and_then
       (if truthy given then
          and_then (get_index colors index) (\<lambda>c.
          and_then (get_prop c ''borderColor'') (\<lambda>b.
          and_then (get_prop c ''backgroundColor'') (\<lambda>g.
          and_then
            (if truthy g then Inr g
             else and_then (to_string env c) (\<lambda>s. Inr (JStr (s @ ''4D'')))) (\<lambda>bgc.
            Inr (JObj [(''borderColor'', if truthy b then b else c),
                       (''backgroundColor'', bgc)])))))
        else Inr (defaultColors ! (index mod length defaultColors))) (\<lambda>color.
     and_then (get_index dataArray index) (\<lambda>entry.
     and_then (get_prop color ''borderColor'') (\<lambda>bc.
     and_then (get_prop color ''backgroundColor'') (\<lambda>bg.
       Inr \<lparr> label = type,
             data = (case entry of JArr xs \<Rightarrow> xs | _ \<Rightarrow> []),
             borderColor = bc,
             backgroundColor = bg,
             fill = False,
             tension = 0.4 \<rparr>)))))"

definition formatData ::
  "js_env \<Rightarrow> jsval \<Rightarrow> jsval \<Rightarrow> jsval \<Rightarrow> jsval \<Rightarrow> console \<times> (exn + chart_data)" where
  "formatData env types timestamps dataArray colors =
     (if \<not> isArray types \<or> \<not> isArray timestamps \<or> \<not> isArray dataArray then
        ([(''Invalid input: types, timestamps, and dataArray must be arrays'',
           JObj [(''types'', types), (''timestamps'', timestamps), (''dataArray'', dataArray)])],
         Inr \<lparr> labels = [], datasets = [] \<rparr>)
      else
        ([],
         and_then (array_map types (dataset_of env dataArray colors)) (\<lambda>ds.
         and_then (formatTimestamps env timestamps) (\<lambda>ls.
           Inr \<lparr> labels = ls, datasets = ds \<rparr>))))"

subsection \<open>Notions used in the statements\<close>

text \<open>
  The test \<^verbatim>\<open>colors && colors[index]\<close> of the callback as a truth value: the caller has
  provided a color for the series at \<open>index\<close>.
\<close>

definition color_provided :: "jsval \<Rightarrow> nat \<Rightarrow> bool" where
  "color_provided colors index =
     (truthy colors \<and> (case get_index colors index of Inl e \<Rightarrow> False | Inr c \<Rightarrow> truthy c))"

text \<open>
  The color provided at \<open>index\<close> cannot be given its transparency: it has no truthy
  \<^verbatim>\<open>backgroundColor\<close>, so the template literal is evaluated, and it does not convert to a
  string.
\<close>

definition template_fails :: "jsval \<Rightarrow> nat \<Rightarrow> bool" where
  "template_fails colors index =
     (color_provided colors index \<and>
      (case get_index colors index of
         Inl e \<Rightarrow> False
       | Inr c \<Rightarrow>
           (case get_prop c ''backgroundColor'' of Inl e \<Rightarrow> False | Inr g \<Rightarrow> \<not> truthy g)
           \<and> \<not> printable c))"

text \<open>
  The inputs on which no conversion to a string fails: every timestamp converts, and so
  does every provided color that needs the template literal.
\<close>

definition convertible_inputs :: "jsval list \<Rightarrow> jsval list \<Rightarrow> jsval \<Rightarrow> bool" where
  "convertible_inputs types timestamps colors =
     (printable_all timestamps \<and> (\<forall>i<length types. \<not> template_fails colors i))"

text \<open>The samples of series \<open>i\<close>: the entry \<open>i\<close> of the value arrays when it is an array.\<close>

definition entry_data :: "jsval list \<Rightarrow> nat \<Rightarrow> jsval list" where
  "entry_data dataArray i =
     (if i < length dataArray then (case dataArray ! i of JArr xs \<Rightarrow> xs | _ \<Rightarrow> []) else [])"

text \<open>A field of a label as the specification words it: two decimal digits, zero-padded.\<close>

definition two_digits :: "nat \<Rightarrow> string" where
  "two_digits n = [''0123456789'' ! (n div 10), ''0123456789'' ! (n mod 10)]"

section \<open>The component\<close>

text \<open>
  The props the host passes. The callback \<^verbatim>\<open>filterChange\<close> is the host's: the model
  records each call of it, with its argument, in the order made, and takes the call to
  return. \<^verbatim>\<open>onDateChange\<close> is never called by the source.
\<close>

record props =
  props_types :: jsval
  props_time :: jsval
  props_data :: jsval
  props_colors :: jsval
  props_timeline :: jsval
  props_startDate :: jsval
  props_endDate :: jsval
  props_leftLoad :: jsval

text \<open>The state held by the \<^verbatim>\<open>useState\<close> hooks.\<close>

record state =
  showStartDatePicker :: bool
  showEndDatePicker :: bool
  loading :: bool
  selectedFilter :: string
  selectedFilterButton :: string
  dataSize :: nat
  selectedStartDate :: jsval
  selectedEndDate :: jsval

text \<open>The state at mount; \<open>today\<close> is the time of the first render.\<close>

definition initial_state :: "props \<Rightarrow> int \<Rightarrow> state" where
  "initial_state p today =
     \<lparr> showStartDatePicker = False,
       showEndDatePicker = False,
       loading = False,
       selectedFilter = ''Range'',
       selectedFilterButton = ''oneD'',
       dataSize = 0,
       selectedStartDate =
         (if truthy (props_startDate p) then props_startDate p else JDate (Some today)),
       selectedEndDate =
         (if truthy (props_endDate p) then props_endDate p else JDate (Some today)) \<rparr>"

text \<open>
  \<^verbatim>\<open>options.animation.onComplete\<close>, called by the chart with the number of labels it has
  drawn.
\<close>

definition onComplete :: "state \<Rightarrow> nat \<Rightarrow> state" where
  "onComplete st n =
     (if n \<noteq> dataSize st then st\<lparr> dataSize := n, loading := False \<rparr> else st)"

text \<open>
  The three button actions. Each takes the state of the render that created it and the
  clock reading \<open>now\<close> of \<^verbatim>\<open>new Date()\<close>, and gives the state after the handler's updates
  together with the calls made to \<^verbatim>\<open>props.filterChange\<close>.
\<close>

definition action_oneD :: "state \<Rightarrow> int \<Rightarrow> state \<times> string list" where
  "action_oneD st now =
     (if selectedFilterButton st = ''oneD'' then (st, [])
      else
        (st\<lparr> selectedFilterButton := ''oneD'',
             selectedStartDate := JDate (timeClip (now - 24 * 60 * 60 * 1000)),
             selectedEndDate := JDate (Some now),
             selectedFilter := ''Hourly'',
             loading := True \<rparr>,
         [''Hourly'']))"

definition action_oneW :: "state \<Rightarrow> int \<Rightarrow> state \<times> string list" where
  "action_oneW st now =
     (if selectedFilterButton st = ''oneW'' then (st, [])
      else
        (st\<lparr> selectedFilterButton := ''oneW'',
             selectedStartDate := JDate (timeClip (now - 7 * 24 * 60 * 60 * 1000)),
             selectedEndDate := JDate (Some now),
             selectedFilter := ''Daily'',
             loading := True \<rparr>,
         [''Daily'']))"

definition action_oneM :: "state \<Rightarrow> int \<Rightarrow> state \<times> string list" where
  "action_oneM st now =
     (if selectedFilterButton st = ''oneM'' then (st, [])
      else
        (st\<lparr> selectedFilterButton := ''oneM'',
             selectedStartDate := JDate (timeClip (now - 30 * 24 * 60 * 60 * 1000)),
             selectedEndDate := JDate (Some now),
             selectedFilter := ''Monthly'',
             loading := True \<rparr>,
         [''Monthly'']))"

record filter_button =
  btn_key :: string
  btn_label :: string
  btn_filter :: string
  btn_action :: "state \<Rightarrow> int \<Rightarrow> state \<times> string list"

text \<open>\<open>t\<close> is the translation function of \<^verbatim>\<open>useTranslation\<close>.\<close>

definition filterButtons :: "(string \<Rightarrow> string) \<Rightarrow> filter_button list" where
  "filterButtons t =
     [\<lparr> btn_key = ''oneD'', btn_label = t ''filterTooltips.oneD'', btn_filter = ''Hourly'',
        btn_action = action_oneD \<rparr>,
      \<lparr> btn_key = ''oneW'', btn_label = t ''filterTooltips.oneW'', btn_filter = ''Daily'',
        btn_action = action_oneW \<rparr>,
      \<lparr> btn_key = ''oneM'', btn_label = t ''filterTooltips.oneM'', btn_filter = ''Monthly'',
        btn_action = action_oneM \<rparr>]"


record button_view =
  bv_key :: string
  bv_className :: string
  bv_onClick :: "state \<Rightarrow> int \<Rightarrow> state \<times> string list"
  bv_disabled :: bool
  bv_text :: string


definition render_buttons :: "(string \<Rightarrow> string) \<Rightarrow> state \<Rightarrow> button_view list" where
  "render_buttons t st =
     map (\<lambda>b.
           \<lparr> bv_key = btn_key b,
             bv_className =
               ''filterButton '' @
               (if selectedFilterButton st = btn_key b then ''activeFilter'' else []),
             bv_onClick = btn_action b,
             bv_disabled = (selectedFilterButton st = btn_key b),
             bv_text = btn_label b \<rparr>)
         (filterButtons t)"




text \<open>
  The mounted component and what happens to it: a click on the button with a given key
  at a given time, the chart finishing a redraw with a number of labels, the host passing
  new props. A disabled button receives no click. Each step gives the calls made to
  \<^verbatim>\<open>props.filterChange\<close>.
\<close>

definition click :: "(string \<Rightarrow> string) \<Rightarrow> state \<Rightarrow> string \<Rightarrow> int \<Rightarrow> state \<times> string list" where
  "click t st k now =
     (case find (\<lambda>b. bv_key b = k) (render_buttons t st) of
        None \<Rightarrow> (st, [])
      | Some b \<Rightarrow> if bv_disabled b then (st, []) else bv_onClick b st now)"

record component =
  comp_props :: props
  comp_state :: state

datatype event = Click string int | AnimationComplete nat | PropsChanged props

fun step :: "(string \<Rightarrow> string) \<Rightarrow> component \<Rightarrow> event \<Rightarrow> component \<times> string list" where
  "step t c (Click k now) =
     (case click t (comp_state c) k now of (st, calls) \<Rightarrow> (c\<lparr> comp_state := st \<rparr>, calls))"
| "step t c (AnimationComplete n) = (c\<lparr> comp_state := onComplete (comp_state c) n \<rparr>, [])"
| "step t c (PropsChanged p) = (c\<lparr> comp_props := p \<rparr>, [])"

section \<open>A reference environment\<close>

text \<open>
  One environment in which the definitions above run on concrete inputs: the time zone is
  UTC and \<^verbatim>\<open>Date.parse\<close> reads the interchange format \<^verbatim>\<open>YYYY-MM-DDTHH:mm:ssZ\<close> only. The
  month and the day of the month of a day number follow the proleptic Gregorian calendar.
  A date and an integer beyond the safe range print their digits; no run below prints
  one. The general results below hold in every environment.
\<close>

definition digit_val :: "char \<Rightarrow> nat option" where
  "digit_val c =
     (let k = (of_char c :: nat) in if 48 \<le> k \<and> k \<le> 57 then Some (k - 48) else None)"

definition decimal :: "string \<Rightarrow> nat option" where
  "decimal cs = map_option (foldl (\<lambda>a d. 10 * a + d) 0) (those (map digit_val cs))"

definition days_from_civil :: "int \<Rightarrow> int \<Rightarrow> int \<Rightarrow> int" where
  "days_from_civil y m d =
     (let y' = (if m \<le> 2 then y - 1 else y);
          era = y' div 400;
          yoe = y' mod 400;
          doy = (153 * (if 2 < m then m - 3 else m + 9) + 2) div 5 + d - 1;
          doe = yoe * 365 + yoe div 4 - yoe div 100 + doy
      in era * 146097 + doe - 719468)"

definition month_day_of_days :: "int \<Rightarrow> int \<times> int" where
  "month_day_of_days z =
     (let doe = (z + 719468) mod 146097;
          yoe = (doe - doe div 1460 + doe div 36524 - doe div 146096) div 365;
          doy = doe - (365 * yoe + yoe div 4 - yoe div 100);
          mp = (5 * doy + 2) div 153;
          d = doy - (153 * mp + 2) div 5 + 1;
          m = (if mp < 10 then mp + 3 else mp - 9)
      in (m, d))"

definition iso_parse :: "string \<Rightarrow> int option" where
  "iso_parse s =
     (if length s = 20 \<and> s ! 4 = CHR ''-'' \<and> s ! 7 = CHR ''-'' \<and> s ! 10 = CHR ''T''
         \<and> s ! 13 = CHR '':'' \<and> s ! 16 = CHR '':'' \<and> s ! 19 = CHR ''Z''
      then
        (case (decimal (take 4 s), decimal (take 2 (drop 5 s)), decimal (take 2 (drop 8 s)),
               decimal (take 2 (drop 11 s)), decimal (take 2 (drop 14 s)),
               decimal (take 2 (drop 17 s))) of
           (Some y, Some m, Some d, Some h, Some mi, Some sec) \<Rightarrow>
             if 1 \<le> m \<and> m \<le> 12 \<and> 1 \<le> d \<and> d \<le> 31 \<and> h < 24 \<and> mi < 60 \<and> sec < 60
             then Some (days_from_civil (int y) (int m) (int d) * 86400000
                        + int h * 3600000 + int mi * 60000 + int sec * 1000)
             else None
         | _ \<Rightarrow> None)
      else None)"

definition utc_env :: js_env where
  "utc_env =
     \<lparr> dateParse = iso_parse,
       dateToString =
         (\<lambda>d. case d of None \<Rightarrow> ''Invalid Date'' | Some t \<Rightarrow> ''Date '' @ plain_decimal t),
       numberToString = plain_decimal,
       localMonth = (\<lambda>t. nat (fst (month_day_of_days (t div 86400000)) - 1)),
       localDate = (\<lambda>t. nat (snd (month_day_of_days (t div 86400000)))),
       localHours = (\<lambda>t. nat ((t div 3600000) mod 24)),
       localMinutes = (\<lambda>t. nat ((t div 60000) mod 60)) \<rparr>"

text \<open>
  A translation function, props and a freshly mounted component for concrete runs: the
  translation returns the key it is given, the props are the example of the
  specification, the component is mounted at 2024-01-01T00:00:00Z.
\<close>

definition sample_t :: "string \<Rightarrow> string" where
  "sample_t k = k"

definition sample_props :: props where
  "sample_props =
     \<lparr> props_types = JArr [JStr ''Temp'', JStr ''Humidity''],
       props_time = JArr [JStr ''2024-01-01T00:00:00Z''],
       props_data = JArr [JArr [JNum (Num 10)], JArr [JNum (Num 50)]],
       props_colors = JUndefined,
       props_timeline = JStr ''Hourly'',
       props_startDate = JUndefined,
       props_endDate = JUndefined,
       props_leftLoad = JBool False \<rparr>"

definition sample_component :: component where
  "sample_component =
     \<lparr> comp_props = sample_props, comp_state = initial_state sample_props 1704067200000 \<rparr>"

section \<open>Properties of the formatter\<close>

subsection \<open>Auxiliary facts\<close>

lemma isArray_iff: "isArray v \<longleftrightarrow> (\<exists>xs. v = JArr xs)"
  by (cases v) auto

lemma exn_TypeError: "(e :: exn) = TypeError"
  by (cases e) simp

lemma sum_exn_cases: "(r :: exn + 'a) = Inl TypeError \<or> (\<exists>y. r = Inr y)"
  by (cases r) (auto simp: exn_TypeError)

lemma get_index_truthy: "truthy v \<Longrightarrow> \<exists>w. get_index v i = Inr w"
  by (cases v) auto

lemma get_prop_truthy: "truthy v \<Longrightarrow> \<exists>w. get_prop v name = Inr w"
  by (cases v) auto

lemma printable_all_iff: "printable_all xs \<longleftrightarrow> (\<forall>x \<in> set xs. printable x)"
  by (induction xs) auto

lemma to_string_join_printable:
  "(printable v \<longrightarrow> (\<exists>s. to_string env v = Inr s)) \<and> (\<not> printable v \<longrightarrow> to_string env v = Inl TypeError)"
  "(printable_all xs \<longrightarrow> (\<exists>s. join env xs = Inr s)) \<and> (\<not> printable_all xs \<longrightarrow> join env xs = Inl TypeError)"
proof (induction env v and env xs rule: to_string_join.induct)
  case (11 env x y ys)
  then show ?case by (cases "x = JUndefined \<or> x = JNull") auto
qed auto

lemma to_string_returns: "printable v \<Longrightarrow> \<exists>s. to_string env v = Inr s"
  using to_string_join_printable(1) by blast

lemma to_string_throws: "\<not> printable v \<Longrightarrow> to_string env v = Inl TypeError"
  using to_string_join_printable(1) by blast

lemma not_printable_truthy: "\<not> printable v \<Longrightarrow> truthy v"
  by (cases v) auto

lemma new_Date_returns: "printable v \<Longrightarrow> \<exists>d. new_Date env v = Inr d"
proof (cases v)
  case (JArr xs)
  assume "printable v"
  then obtain s where "to_string env v = Inr s" using to_string_returns by blast
  with JArr show ?thesis by simp
next
  case (JObj kvs)
  assume "printable v"
  with JObj show ?thesis by simp
next
  case (JNum n)
  then show ?thesis by (cases n) simp_all
qed simp_all

lemma new_Date_throws: "\<not> printable v \<Longrightarrow> new_Date env v = Inl TypeError"
proof (cases v)
  case (JArr xs)
  assume "\<not> printable v"
  then have "to_string env v = Inl TypeError" by (rule to_string_throws)
  with JArr show ?thesis by simp
qed simp_all

lemma map_from_returns:
  assumes "\<And>k. k < length xs \<Longrightarrow> \<exists>y. f (xs ! k) (i + k) = Inr y"
  shows "map_from i f xs = Inr (map (\<lambda>k. projr (f (xs ! k) (i + k))) [0 ..< length xs])"
  using assms
proof (induction xs arbitrary: i)
  case Nil
  show ?case by simp
next
  case (Cons x xs)
  from Cons.prems [of 0] obtain y where y: "f x i = Inr y" by auto
  have "\<exists>y. f (xs ! k) (Suc i + k) = Inr y" if "k < length xs" for k
    using Cons.prems [of "Suc k"] that by simp
  then have "map_from (Suc i) f xs =
      Inr (map (\<lambda>k. projr (f (xs ! k) (Suc i + k))) [0 ..< length xs])"
    by (rule Cons.IH)
  with y show ?case
    by (simp add: map_upt_Suc del: upt_Suc)
qed

lemma map_from_throws:
  assumes "k < length xs" and "f (xs ! k) (i + k) = Inl TypeError"
  shows "map_from i f xs = Inl TypeError"
  using assms
proof (induction xs arbitrary: i k)
  case Nil
  then show ?case by simp
next
  case (Cons x xs)
  show ?case
  proof (cases k)
    case 0
    with Cons.prems show ?thesis by simp
  next
    case (Suc j)
    with Cons.prems have "j < length xs" "f (xs ! j) (Suc i + j) = Inl TypeError" by simp_all
    then have rest: "map_from (Suc i) f xs = Inl TypeError" by (rule Cons.IH)
    from sum_exn_cases [of "f x i"] show ?thesis
      using rest by auto
  qed
qed

lemma digits_small: "n < 10 \<Longrightarrow> digits n = [''0123456789'' ! n]"
  by (simp add: digits.simps)

lemma digits_two:
  "10 \<le> n \<Longrightarrow> n < 100 \<Longrightarrow> digits n = [''0123456789'' ! (n div 10), ''0123456789'' ! (n mod 10)]"
  by (subst digits.simps) (simp add: digits_small)

lemma pad_two:
  "n < 100 \<Longrightarrow> padStart (number_to_string env (Num (int n))) 2 ''0'' = two_digits n"
proof (cases "n < 10")
  case True
  then show ?thesis
    by (simp add: padStart_def digits_small two_digits_def safe_integer_def plain_decimal_def)
next
  case False
  assume "n < 100"
  with False show ?thesis
    by (simp add: padStart_def digits_two two_digits_def safe_integer_def plain_decimal_def)
qed

lemma formatTimestamp_falsy:
  "\<not> truthy v \<Longrightarrow> formatTimestamp env v = Inr ''Invalid Timestamp''"
  by (simp add: formatTimestamp_def)

lemma formatTimestamp_throws: "\<not> printable v \<Longrightarrow> formatTimestamp env v = Inl TypeError"
  by (simp add: formatTimestamp_def not_printable_truthy new_Date_throws)

lemma formatTimestamp_returns: "printable v \<Longrightarrow> \<exists>s. formatTimestamp env v = Inr s"
  using new_Date_returns [of v env] by (auto simp: formatTimestamp_def Let_def)

lemma formatTimestamp_truthy_dash:
  "truthy v \<Longrightarrow> formatTimestamp env v = Inr s \<Longrightarrow> CHR ''-'' \<in> set s"
  using sum_exn_cases [of "new_Date env v"] by (auto simp: formatTimestamp_def Let_def)

lemma formatTimestamp_invalid_date:
  "truthy v \<Longrightarrow> new_Date env v = Inr None \<Longrightarrow> formatTimestamp env v = Inr ''NaN-NaN NaN:NaN''"
  by (simp add: formatTimestamp_def getMonth_def getDate_def getHours_def getMinutes_def
      padStart_def)

lemma formatTimestamp_valid:
  assumes "truthy v" "new_Date env v = Inr (Some t)"
    "localMonth env t < 12" "localDate env t \<le> 31" "localHours env t < 24"
    "localMinutes env t < 60"
  shows "formatTimestamp env v =
     Inr (two_digits (localMonth env t + 1) @ ''-'' @ two_digits (localDate env t) @ '' '' @
          two_digits (localHours env t) @ '':'' @ two_digits (localMinutes env t))"
proof -
  have m: "padStart (number_to_string env (num_add (getMonth env (Some t)) (Num 1))) 2 ''0'' =
      two_digits (localMonth env t + 1)"
    using assms(3) pad_two [of "localMonth env t + 1" env] by (simp add: getMonth_def add.commute)
  have d: "padStart (number_to_string env (getDate env (Some t))) 2 ''0'' =
      two_digits (localDate env t)"
    using assms(4) pad_two [of "localDate env t" env] by (simp add: getDate_def)
  have h: "padStart (number_to_string env (getHours env (Some t))) 2 ''0'' =
      two_digits (localHours env t)"
    using assms(5) pad_two [of "localHours env t" env] by (simp add: getHours_def)
  have mi: "padStart (number_to_string env (getMinutes env (Some t))) 2 ''0'' =
      two_digits (localMinutes env t)"
    using assms(6) pad_two [of "localMinutes env t" env] by (simp add: getMinutes_def)
  show ?thesis
    unfolding formatTimestamp_def Let_def using assms(1,2) m d h mi by simp
qed

lemma formatTimestamps_not_array: "\<not> isArray v \<Longrightarrow> formatTimestamps env v = Inr []"
  by (simp add: formatTimestamps_def)

lemma formatTimestamps_returns:
  assumes "printable_all ts"
  shows "formatTimestamps env (JArr ts) =
     Inr (map (\<lambda>k. projr (formatTimestamp env (ts ! k))) [0 ..< length ts])"
proof -
  have "map_from 0 (\<lambda>timestamp index. formatTimestamp env timestamp) ts =
      Inr (map (\<lambda>k. projr (formatTimestamp env (ts ! k))) [0 ..< length ts])"
  proof (rule map_from_returns)
    fix k assume "k < length ts"
    with assms have "printable (ts ! k)" by (simp add: printable_all_iff)
    then show "\<exists>y. formatTimestamp env (ts ! k) = Inr y" by (rule formatTimestamp_returns)
  qed
  then show ?thesis by (simp add: formatTimestamps_def)
qed

lemma formatTimestamps_throws:
  assumes "\<not> printable_all ts"
  shows "formatTimestamps env (JArr ts) = Inl TypeError"
proof -
  from assms obtain k where k: "k < length ts" "\<not> printable (ts ! k)"
    by (auto simp: printable_all_iff in_set_conv_nth)
  then have "formatTimestamp env (ts ! k) = Inl TypeError"
    by (simp add: formatTimestamp_throws)
  with k(1) have "map_from 0 (\<lambda>timestamp index. formatTimestamp env timestamp) ts = Inl TypeError"
    by (intro map_from_throws [of k]) simp_all
  then show ?thesis by (simp add: formatTimestamps_def)
qed

lemma formatTimestamps_labels:
  assumes "printable_all ts"
  shows "\<exists>ls. formatTimestamps env (JArr ts) = Inr ls \<and> length ls = length ts
     \<and> (\<forall>j<length ts. formatTimestamp env (ts ! j) = Inr (ls ! j))"
proof -
  have "formatTimestamp env (ts ! j) = Inr (projr (formatTimestamp env (ts ! j)))"
    if "j < length ts" for j
  proof -
    from assms that have "printable (ts ! j)" by (simp add: printable_all_iff)
    then obtain s where "formatTimestamp env (ts ! j) = Inr s"
      using formatTimestamp_returns by blast
    then show ?thesis by simp
  qed
  then show ?thesis
    using formatTimestamps_returns [OF assms, of env] by simp
qed

lemma defaultColors_nth:
  assumes "k < 4"
  shows "defaultColors ! k =
     JObj [(''borderColor'',
            [JStr ''rgb(255, 206, 86)'', JStr ''rgb(54, 162, 235)'',
             JStr ''rgb(255, 99, 132)'', JStr ''rgb(75, 192, 192)''] ! k),
           (''backgroundColor'',
            [JStr ''rgba(255, 206, 86, 0.2)'', JStr ''rgba(54, 162, 235, 0.2)'',
             JStr ''rgba(255, 99, 132, 0.2)'', JStr ''rgba(75, 192, 192, 0.2)''] ! k)]"
proof -
  from assms have "k = 0 \<or> k = 1 \<or> k = 2 \<or> k = 3" by arith
  then show ?thesis by (elim disjE) (simp_all add: defaultColors_def)
qed

lemma length_defaultColors: "length defaultColors = 4"
  by (simp add: defaultColors_def)

lemma entry_read:
  "(case (if i < length da then da ! i else JUndefined) of JArr xs \<Rightarrow> xs | _ \<Rightarrow> []) =
   entry_data da i"
  by (simp add: entry_data_def)

lemma not_provided_not_fails: "\<not> color_provided colors i \<Longrightarrow> \<not> template_fails colors i"
  by (simp add: template_fails_def)

lemma dataset_of_default:
  assumes "\<not> color_provided colors i"
  shows "dataset_of env (JArr da) colors ty i =
     Inr \<lparr> label = ty, data = entry_data da i,
           borderColor =
             [JStr ''rgb(255, 206, 86)'', JStr ''rgb(54, 162, 235)'',
              JStr ''rgb(255, 99, 132)'', JStr ''rgb(75, 192, 192)''] ! (i mod 4),
           backgroundColor =
             [JStr ''rgba(255, 206, 86, 0.2)'', JStr ''rgba(54, 162, 235, 0.2)'',
              JStr ''rgba(255, 99, 132, 0.2)'', JStr ''rgba(75, 192, 192, 0.2)''] ! (i mod 4),
           fill = False, tension = 0.4 \<rparr>"
proof -
  have k: "i mod 4 < 4" by simp
  show ?thesis
  proof (cases "truthy colors")
    case False
    then show ?thesis
      by (simp add: dataset_of_def length_defaultColors defaultColors_nth [OF k] entry_read)
  next
    case True
    then obtain c where c: "get_index colors i = Inr c"
      using get_index_truthy by blast
    with True assms have "\<not> truthy c" by (simp add: color_provided_def)
    with True c show ?thesis
      by (simp add: dataset_of_def length_defaultColors defaultColors_nth [OF k] entry_read)
  qed
qed

lemma dataset_of_given:
  assumes "color_provided colors i" and "\<not> template_fails colors i"
  shows "\<exists>bc bg. dataset_of env (JArr da) colors ty i =
     Inr \<lparr> label = ty, data = entry_data da i, borderColor = bc, backgroundColor = bg,
           fill = False, tension = 0.4 \<rparr>"
proof -
  from assms(1) have t: "truthy colors" by (simp add: color_provided_def)
  then obtain c where c: "get_index colors i = Inr c"
    using get_index_truthy by blast
  with assms(1) have tc: "truthy c" by (simp add: color_provided_def)
  obtain b where b: "get_prop c ''borderColor'' = Inr b"
    using get_prop_truthy [OF tc] by blast
  obtain g where g: "get_prop c ''backgroundColor'' = Inr g"
    using get_prop_truthy [OF tc] by blast
  show ?thesis
  proof (cases "truthy g")
    case True
    with t c tc b g show ?thesis by (simp add: dataset_of_def entry_read)
  next
    case False
    with assms c g have "printable c" by (simp add: template_fails_def)
    then obtain s where "to_string env c = Inr s" using to_string_returns by blast
    with False t c tc b g show ?thesis by (simp add: dataset_of_def entry_read)
  qed
qed

lemma dataset_of_shape:
  assumes "\<not> template_fails colors i"
  shows "\<exists>bc bg. dataset_of env (JArr da) colors ty i =
     Inr \<lparr> label = ty, data = entry_data da i, borderColor = bc, backgroundColor = bg,
           fill = False, tension = 0.4 \<rparr>"
  using dataset_of_given [OF _ assms, of env da ty] dataset_of_default [of colors i env da ty]
  by (cases "color_provided colors i") auto

lemma dataset_of_throws:
  assumes "template_fails colors i"
  shows "dataset_of env (JArr da) colors ty i = Inl TypeError"
proof -
  from assms have p: "color_provided colors i" by (simp add: template_fails_def)
  then have t: "truthy colors" by (simp add: color_provided_def)
  then obtain c where c: "get_index colors i = Inr c"
    using get_index_truthy by blast
  with p have tc: "truthy c" by (simp add: color_provided_def)
  obtain b where b: "get_prop c ''borderColor'' = Inr b"
    using get_prop_truthy [OF tc] by blast
  obtain g where g: "get_prop c ''backgroundColor'' = Inr g"
    using get_prop_truthy [OF tc] by blast
  from assms c g have "\<not> truthy g" "\<not> printable c" by (simp_all add: template_fails_def)
  then have "\<not> truthy g" "to_string env c = Inl TypeError"
    by (simp_all add: to_string_throws)
  with t c tc b g show ?thesis by (simp add: dataset_of_def)
qed

lemma datasets_returns:
  assumes "\<forall>i<length types. \<not> template_fails colors i"
  shows "map_from 0 (dataset_of env (JArr da) colors) types =
     Inr (map (\<lambda>i. projr (dataset_of env (JArr da) colors (types ! i) i)) [0 ..< length types])"
proof -
  have "map_from 0 (dataset_of env (JArr da) colors) types =
      Inr (map (\<lambda>k. projr (dataset_of env (JArr da) colors (types ! k) (0 + k)))
             [0 ..< length types])"
  proof (rule map_from_returns)
    fix k assume "k < length types"
    with assms have "\<not> template_fails colors k" by simp
    then show "\<exists>y. dataset_of env (JArr da) colors (types ! k) (0 + k) = Inr y"
      using dataset_of_shape [of colors k env da "types ! k"] by auto
  qed
  then show ?thesis by simp
qed

lemma datasets_throws:
  assumes "i < length types" and "template_fails colors i"
  shows "map_from 0 (dataset_of env (JArr da) colors) types = Inl TypeError"
proof -
  from assms(2) have "dataset_of env (JArr da) colors (types ! i) (0 + i) = Inl TypeError"
    by (simp add: dataset_of_throws)
  with assms(1) show ?thesis
    by (rule map_from_throws)
qed

lemma formatData_returns:
  assumes "convertible_inputs types ts colors"
  shows "formatData env (JArr types) (JArr ts) (JArr da) colors =
     ([], Inr \<lparr> labels = map (\<lambda>k. projr (formatTimestamp env (ts ! k))) [0 ..< length ts],
                datasets = map (\<lambda>i. projr (dataset_of env (JArr da) colors (types ! i) i))
                             [0 ..< length types] \<rparr>)"
proof -
  from assms have p: "printable_all ts" and c: "\<forall>i<length types. \<not> template_fails colors i"
    by (simp_all add: convertible_inputs_def)
  show ?thesis
    by (simp add: formatData_def datasets_returns [OF c] formatTimestamps_returns [OF p])
qed

lemma formatData_throws:
  assumes "\<not> convertible_inputs types ts colors"
  shows "formatData env (JArr types) (JArr ts) (JArr da) colors = ([], Inl TypeError)"
proof (cases "\<forall>i<length types. \<not> template_fails colors i")
  case True
  with assms have "\<not> printable_all ts" by (simp add: convertible_inputs_def)
  then show ?thesis
    by (simp add: formatData_def datasets_returns [OF True] formatTimestamps_throws)
next
  case False
  then obtain i where "i < length types" "template_fails colors i" by blast
  then show ?thesis
    by (simp add: formatData_def datasets_throws)
qed

subsection \<open>Malformed and array-shaped inputs\<close>

text \<open>
  Claim C1. Whenever one of \<open>types\<close>, \<open>timestamps\<close> and \<open>dataArray\<close> is not an array,
  whatever the four arguments are otherwise, \<^verbatim>\<open>formatData\<close> returns the empty chart input
  \<^verbatim>\<open>{labels: [], datasets: []}\<close>, after logging one diagnostic, and throws nothing.
\<close>

theorem formatData_malformed_input:
  assumes "\<not> isArray types \<or> \<not> isArray timestamps \<or> \<not> isArray dataArray"
  shows "formatData env types timestamps dataArray colors =
     ([(''Invalid input: types, timestamps, and dataArray must be arrays'',
        JObj [(''types'', types), (''timestamps'', timestamps), (''dataArray'', dataArray)])],
      Inr \<lparr> labels = [], datasets = [] \<rparr>)"
  using assms by (auto simp: formatData_def)

theorem formatData_malformed_input_witness:
  "\<not> isArray (JStr ''Temp'') \<and>
   formatData utc_env (JStr ''Temp'') (JArr [JStr ''2024-01-01T00:00:00Z'']) JNull JUndefined =
     ([(''Invalid input: types, timestamps, and dataArray must be arrays'',
        JObj [(''types'', JStr ''Temp''),
              (''timestamps'', JArr [JStr ''2024-01-01T00:00:00Z'']),
              (''dataArray'', JNull)])],
      Inr \<lparr> labels = [], datasets = [] \<rparr>)"
  using formatData_malformed_input
    [where types = "JStr ''Temp''" and timestamps = "JArr [JStr ''2024-01-01T00:00:00Z'']"
       and dataArray = JNull and env = utc_env and colors = JUndefined]
  by simp

text \<open>
  Claim C6 says that \<^verbatim>\<open>formatData\<close> returns one dataset per series name for every
  array-shaped input. It does not when a conversion to a string throws: with two series,
  no colors and the timestamp \<^verbatim>\<open>{toString: 1}\<close>, \<^verbatim>\<open>new Date\<close> throws a \<^verbatim>\<open>TypeError\<close> and
  \<^verbatim>\<open>formatData\<close> returns nothing.
\<close>

theorem formatData_datasets_counterexample:
  "formatData utc_env (JArr [JStr ''Temp'', JStr ''Humidity''])
      (JArr [JObj [(''toString'', JNum (Num 1))]])
      (JArr [JArr [JNum (Num 10)], JArr [JNum (Num 50)]]) JUndefined =
     ([], Inl TypeError)"
  by (rule formatData_throws) (simp add: convertible_inputs_def)

text \<open>
  Claim C6, amended. On arrays \<open>types\<close>, \<open>timestamps\<close> and \<open>dataArray\<close> such that every
  timestamp converts to a string, and so does every provided color without a truthy
  \<^verbatim>\<open>backgroundColor\<close>, \<^verbatim>\<open>formatData\<close> returns the labels of the timestamps and one dataset
  per element of \<open>types\<close>, in order. Dataset \<open>i\<close> has the label \<open>types[i]\<close>, the data
  \<open>dataArray[i]\<close> when that is an array and the empty array otherwise, \<open>fill = false\<close> and
  \<open>tension = 0.4\<close>; when no color is provided for index \<open>i\<close>, its border and background
  colors are those of the default palette at \<open>i mod 4\<close>. On the other array-shaped inputs
  \<^verbatim>\<open>formatData\<close> throws a \<^verbatim>\<open>TypeError\<close>.
\<close>

theorem formatData_datasets:
  "(convertible_inputs types timestamps colors \<longrightarrow>
      (\<exists>ls ds. formatData env (JArr types) (JArr timestamps) (JArr dataArray) colors =
                 ([], Inr \<lparr> labels = ls, datasets = ds \<rparr>)
         \<and> length ls = length timestamps
         \<and> (\<forall>j<length timestamps. formatTimestamp env (timestamps ! j) = Inr (ls ! j))
         \<and> length ds = length types
         \<and> (\<forall>i<length types.
               label (ds ! i) = types ! i
             \<and> data (ds ! i) =
                 (if i < length dataArray
                  then (case dataArray ! i of JArr xs \<Rightarrow> xs | _ \<Rightarrow> []) else [])
             \<and> fill (ds ! i) = False
             \<and> tension (ds ! i) = 0.4
             \<and> (\<not> color_provided colors i \<longrightarrow>
                  borderColor (ds ! i) =
                    [JStr ''rgb(255, 206, 86)'', JStr ''rgb(54, 162, 235)'',
                     JStr ''rgb(255, 99, 132)'', JStr ''rgb(75, 192, 192)''] ! (i mod 4)
                \<and> backgroundColor (ds ! i) =
                    [JStr ''rgba(255, 206, 86, 0.2)'', JStr ''rgba(54, 162, 235, 0.2)'',
                     JStr ''rgba(255, 99, 132, 0.2)'', JStr ''rgba(75, 192, 192, 0.2)'']
                    ! (i mod 4)))))
   \<and> (\<not> convertible_inputs types timestamps colors \<longrightarrow>
        formatData env (JArr types) (JArr timestamps) (JArr dataArray) colors =
          ([], Inl TypeError))"
proof (intro conjI impI)
  assume ok: "convertible_inputs types timestamps colors"
  then have p: "printable_all timestamps" and c: "\<forall>i<length types. \<not> template_fails colors i"
    by (simp_all add: convertible_inputs_def)
  define ds where "ds = map (\<lambda>i. projr (dataset_of env (JArr dataArray) colors (types ! i) i))
                          [0 ..< length types]"
  define ls where "ls = map (\<lambda>k. projr (formatTimestamp env (timestamps ! k)))
                          [0 ..< length timestamps]"
  have nth: "ds ! i = projr (dataset_of env (JArr dataArray) colors (types ! i) i)"
    if "i < length types" for i
    using that by (simp add: ds_def)
  have shape: "label (ds ! i) = types ! i \<and> data (ds ! i) = entry_data dataArray i
      \<and> fill (ds ! i) = False \<and> tension (ds ! i) = 0.4"
    if "i < length types" for i
  proof -
    from c that have "\<not> template_fails colors i" by simp
    then show ?thesis
      using dataset_of_shape [of colors i env dataArray "types ! i"] nth [OF that] by auto
  qed
  have palette: "borderColor (ds ! i) =
        [JStr ''rgb(255, 206, 86)'', JStr ''rgb(54, 162, 235)'',
         JStr ''rgb(255, 99, 132)'', JStr ''rgb(75, 192, 192)''] ! (i mod 4)
      \<and> backgroundColor (ds ! i) =
        [JStr ''rgba(255, 206, 86, 0.2)'', JStr ''rgba(54, 162, 235, 0.2)'',
         JStr ''rgba(255, 99, 132, 0.2)'', JStr ''rgba(75, 192, 192, 0.2)''] ! (i mod 4)"
    if "i < length types" "\<not> color_provided colors i" for i
    using dataset_of_default [OF that(2), of env dataArray "types ! i"] nth [OF that(1)] by simp
  have run: "formatData env (JArr types) (JArr timestamps) (JArr dataArray) colors =
          ([], Inr \<lparr> labels = ls, datasets = ds \<rparr>)"
    by (simp add: formatData_returns [OF ok] ds_def ls_def)
  have labels: "formatTimestamp env (timestamps ! j) = Inr (ls ! j)"
    if "j < length timestamps" for j
  proof -
    from p that have "printable (timestamps ! j)" by (simp add: printable_all_iff)
    then obtain s where "formatTimestamp env (timestamps ! j) = Inr s"
      using formatTimestamp_returns by blast
    with that show ?thesis by (simp add: ls_def)
  qed
  have "length ls = length timestamps" "length ds = length types"
    by (simp_all add: ls_def ds_def)
  with run labels shape palette
  show "\<exists>ls ds. formatData env (JArr types) (JArr timestamps) (JArr dataArray) colors =
                 ([], Inr \<lparr> labels = ls, datasets = ds \<rparr>)
         \<and> length ls = length timestamps
         \<and> (\<forall>j<length timestamps. formatTimestamp env (timestamps ! j) = Inr (ls ! j))
         \<and> length ds = length types
         \<and> (\<forall>i<length types.
               label (ds ! i) = types ! i
             \<and> data (ds ! i) =
                 (if i < length dataArray
                  then (case dataArray ! i of JArr xs \<Rightarrow> xs | _ \<Rightarrow> []) else [])
             \<and> fill (ds ! i) = False
             \<and> tension (ds ! i) = 0.4
             \<and> (\<not> color_provided colors i \<longrightarrow>
                  borderColor (ds ! i) =
                    [JStr ''rgb(255, 206, 86)'', JStr ''rgb(54, 162, 235)'',
                     JStr ''rgb(255, 99, 132)'', JStr ''rgb(75, 192, 192)''] ! (i mod 4)
                \<and> backgroundColor (ds ! i) =
                    [JStr ''rgba(255, 206, 86, 0.2)'', JStr ''rgba(54, 162, 235, 0.2)'',
                     JStr ''rgba(255, 99, 132, 0.2)'', JStr ''rgba(75, 192, 192, 0.2)'']
                    ! (i mod 4)))"
    by (intro exI [of _ ls] exI [of _ ds]) (simp add: entry_data_def)
next
  assume "\<not> convertible_inputs types timestamps colors"
  then show "formatData env (JArr types) (JArr timestamps) (JArr dataArray) colors =
          ([], Inl TypeError)"
    by (rule formatData_throws)
qed

text \<open>
  The example of the specification: two series and no colors give the first two palette
  colors, in order. A timestamp that is an array holding \<^verbatim>\<open>{toString: null}\<close> makes the
  call throw.
\<close>

theorem formatData_datasets_witness:
  "convertible_inputs [JStr ''Temp'', JStr ''Humidity''] [JStr ''2024-01-01T00:00:00Z''] JUndefined
   \<and> formatData utc_env (JArr [JStr ''Temp'', JStr ''Humidity''])
      (JArr [JStr ''2024-01-01T00:00:00Z''])
      (JArr [JArr [JNum (Num 10)], JArr [JNum (Num 50)]]) JUndefined =
     ([], Inr \<lparr> labels = [''01-01 00:00''],
                datasets =
                  [\<lparr> label = JStr ''Temp'', data = [JNum (Num 10)],
                     borderColor = JStr ''rgb(255, 206, 86)'',
                     backgroundColor = JStr ''rgba(255, 206, 86, 0.2)'',
                     fill = False, tension = 0.4 \<rparr>,
                   \<lparr> label = JStr ''Humidity'', data = [JNum (Num 50)],
                     borderColor = JStr ''rgb(54, 162, 235)'',
                     backgroundColor = JStr ''rgba(54, 162, 235, 0.2)'',
                     fill = False, tension = 0.4 \<rparr>] \<rparr>)
   \<and> \<not> convertible_inputs [JStr ''Temp''] [JArr [JNull, JObj [(''toString'', JNull)]]] JUndefined
   \<and> formatData utc_env (JArr [JStr ''Temp''])
        (JArr [JArr [JNull, JObj [(''toString'', JNull)]]]) (JArr []) JUndefined =
       ([], Inl TypeError)"
proof -
  let ?types = "[JStr ''Temp'', JStr ''Humidity'']"
  let ?ts = "[JStr ''2024-01-01T00:00:00Z'']"
  let ?da = "[JArr [JNum (Num 10)], JArr [JNum (Num 50)]]"
  have none: "\<not> color_provided JUndefined i" for i
    by (simp add: color_provided_def)
  have ok: "convertible_inputs ?types ?ts JUndefined"
    by (simp add: convertible_inputs_def template_fails_def none)
  have bad: "\<not> convertible_inputs [JStr ''Temp''] [JArr [JNull, JObj [(''toString'', JNull)]]]
      JUndefined"
    by (simp add: convertible_inputs_def)
  from formatData_datasets [of ?types ?ts JUndefined utc_env ?da] ok
  obtain ls ds where
    run: "formatData utc_env (JArr ?types) (JArr ?ts) (JArr ?da) JUndefined =
            ([], Inr \<lparr> labels = ls, datasets = ds \<rparr>)"
    and lenl: "length ls = length ?ts"
    and labs: "\<forall>j<length ?ts. formatTimestamp utc_env (?ts ! j) = Inr (ls ! j)"
    and len: "length ds = length ?types"
    and each: "\<forall>i<length ?types.
           label (ds ! i) = ?types ! i
         \<and> data (ds ! i) = (if i < length ?da then (case ?da ! i of JArr xs \<Rightarrow> xs | _ \<Rightarrow> []) else [])
         \<and> fill (ds ! i) = False
         \<and> tension (ds ! i) = 0.4
         \<and> (\<not> color_provided JUndefined i \<longrightarrow>
              borderColor (ds ! i) =
                [JStr ''rgb(255, 206, 86)'', JStr ''rgb(54, 162, 235)'',
                 JStr ''rgb(255, 99, 132)'', JStr ''rgb(75, 192, 192)''] ! (i mod 4)
            \<and> backgroundColor (ds ! i) =
                [JStr ''rgba(255, 206, 86, 0.2)'', JStr ''rgba(54, 162, 235, 0.2)'',
                 JStr ''rgba(255, 99, 132, 0.2)'', JStr ''rgba(75, 192, 192, 0.2)''] ! (i mod 4))"
    by auto
  from len obtain d0 d1 where ds: "ds = [d0, d1]"
    by (cases ds; cases "tl ds") auto
  from lenl obtain l0 where ls: "ls = [l0]"
    by (cases ls) auto
  from each [rule_format, of 0] none have d0:
    "d0 = \<lparr> label = JStr ''Temp'', data = [JNum (Num 10)],
            borderColor = JStr ''rgb(255, 206, 86)'',
            backgroundColor = JStr ''rgba(255, 206, 86, 0.2)'',
            fill = False, tension = 0.4 \<rparr>"
    by (simp add: ds)
  from each [rule_format, of 1] none have d1:
    "d1 = \<lparr> label = JStr ''Humidity'', data = [JNum (Num 50)],
            borderColor = JStr ''rgb(54, 162, 235)'',
            backgroundColor = JStr ''rgba(54, 162, 235, 0.2)'',
            fill = False, tension = 0.4 \<rparr>"
    by (simp add: ds)
  have lab: "formatTimestamp utc_env (JStr ''2024-01-01T00:00:00Z'') = Inr ''01-01 00:00''"
    by code_simp
  from labs [rule_format, of 0] lab have l0: "l0 = ''01-01 00:00''"
    by (simp add: ls)
  from formatData_datasets
    [of "[JStr ''Temp'']" "[JArr [JNull, JObj [(''toString'', JNull)]]]" JUndefined utc_env "[]"] bad
  have thrown: "formatData utc_env (JArr [JStr ''Temp''])
        (JArr [JArr [JNull, JObj [(''toString'', JNull)]]]) (JArr []) JUndefined =
       ([], Inl TypeError)"
    by simp
  from run ok bad thrown show ?thesis
    by (simp add: ds ls d0 d1 l0)
qed

text \<open>
  Claim C7 says that \<^verbatim>\<open>formatData\<close> does not throw on arrays with \<open>dataArray\<close> shorter than
  \<open>types\<close>. With two series, one value array and the colors \<^verbatim>\<open>[{toString: 1}]\<close>, the
  template literal that adds the transparency to the first color throws a
  \<^verbatim>\<open>TypeError\<close>.
\<close>

theorem formatData_short_dataArray_counterexample:
  "length [JArr [JNum (Num 10)]] < length [JStr ''Temp'', JStr ''Humidity'']
   \<and> formatData utc_env (JArr [JStr ''Temp'', JStr ''Humidity''])
        (JArr [JStr ''2024-01-01T00:00:00Z''])
        (JArr [JArr [JNum (Num 10)]])
        (JArr [JObj [(''toString'', JNum (Num 1))]]) =
       ([], Inl TypeError)"
proof -
  have "template_fails (JArr [JObj [(''toString'', JNum (Num 1))]]) 0"
    by (simp add: template_fails_def color_provided_def)
  then have "\<not> convertible_inputs [JStr ''Temp'', JStr ''Humidity'']
      [JStr ''2024-01-01T00:00:00Z''] (JArr [JObj [(''toString'', JNum (Num 1))]])"
    by (auto simp: convertible_inputs_def)
  then show ?thesis by (simp add: formatData_throws)
qed

text \<open>
  Claim C7, amended. On arrays \<open>types\<close>, \<open>timestamps\<close> and \<open>dataArray\<close> with \<open>dataArray\<close> shorter
  than \<open>types\<close>, such that every timestamp converts to a string, and so does every provided
  color without a truthy \<^verbatim>\<open>backgroundColor\<close>, \<^verbatim>\<open>formatData\<close> throws nothing and returns one
  dataset per series name: a series with an entry in \<open>dataArray\<close> keeps the entry at its
  own index, and every series past the end of \<open>dataArray\<close> has the empty data array. On
  the other such inputs it throws a \<^verbatim>\<open>TypeError\<close>.
\<close>

theorem formatData_short_dataArray:
  assumes "length dataArray < length types"
  shows "(convertible_inputs types timestamps colors \<longrightarrow>
      (\<exists>ls ds. formatData env (JArr types) (JArr timestamps) (JArr dataArray) colors =
                 ([], Inr \<lparr> labels = ls, datasets = ds \<rparr>)
         \<and> length ds = length types
         \<and> (\<forall>i<length dataArray.
               data (ds ! i) = (case dataArray ! i of JArr xs \<Rightarrow> xs | _ \<Rightarrow> []))
         \<and> (\<forall>i. length dataArray \<le> i \<and> i < length types \<longrightarrow> data (ds ! i) = [])))
   \<and> (\<not> convertible_inputs types timestamps colors \<longrightarrow>
        formatData env (JArr types) (JArr timestamps) (JArr dataArray) colors =
          ([], Inl TypeError))"
proof (intro conjI impI)
  assume ok: "convertible_inputs types timestamps colors"
  then have c: "\<forall>i<length types. \<not> template_fails colors i"
    by (simp add: convertible_inputs_def)
  define ds where "ds = map (\<lambda>i. projr (dataset_of env (JArr dataArray) colors (types ! i) i))
                          [0 ..< length types]"
  define ls where "ls = map (\<lambda>k. projr (formatTimestamp env (timestamps ! k)))
                          [0 ..< length timestamps]"
  have entry: "data (ds ! i) = entry_data dataArray i" if "i < length types" for i
  proof -
    from that have "ds ! i = projr (dataset_of env (JArr dataArray) colors (types ! i) i)"
      by (simp add: ds_def)
    moreover from c that have "\<not> template_fails colors i" by simp
    ultimately show ?thesis
      using dataset_of_shape [of colors i env dataArray "types ! i"] by auto
  qed
  have run: "formatData env (JArr types) (JArr timestamps) (JArr dataArray) colors =
          ([], Inr \<lparr> labels = ls, datasets = ds \<rparr>)"
    by (simp add: formatData_returns [OF ok] ds_def ls_def)
  have len: "length ds = length types" by (simp add: ds_def)
  have present: "\<forall>i<length dataArray.
      data (ds ! i) = (case dataArray ! i of JArr xs \<Rightarrow> xs | _ \<Rightarrow> [])"
    using entry assms by (simp add: entry_data_def)
  have missing: "\<forall>i. length dataArray \<le> i \<and> i < length types \<longrightarrow> data (ds ! i) = []"
    using entry by (simp add: entry_data_def)
  from run len present missing
  show "\<exists>ls ds. formatData env (JArr types) (JArr timestamps) (JArr dataArray) colors =
                 ([], Inr \<lparr> labels = ls, datasets = ds \<rparr>)
         \<and> length ds = length types
         \<and> (\<forall>i<length dataArray.
               data (ds ! i) = (case dataArray ! i of JArr xs \<Rightarrow> xs | _ \<Rightarrow> []))
         \<and> (\<forall>i. length dataArray \<le> i \<and> i < length types \<longrightarrow> data (ds ! i) = [])"
    by (intro exI [of _ ls] exI [of _ ds]) simp
next
  assume "\<not> convertible_inputs types timestamps colors"
  then show "formatData env (JArr types) (JArr timestamps) (JArr dataArray) colors =
          ([], Inl TypeError)"
    by (rule formatData_throws)
qed

theorem formatData_short_dataArray_witness:
  "convertible_inputs [JStr ''Temp'', JStr ''Humidity'', JStr ''Wind'']
     [JStr ''2024-01-01T00:00:00Z''] (JArr [JStr ''#ff0000''])
   \<and> (\<exists>ls d0 d1 d2.
     formatData utc_env (JArr [JStr ''Temp'', JStr ''Humidity'', JStr ''Wind''])
        (JArr [JStr ''2024-01-01T00:00:00Z''])
        (JArr [JArr [JNum (Num 10)], JStr ''n/a'']) (JArr [JStr ''#ff0000'']) =
       ([], Inr \<lparr> labels = ls, datasets = [d0, d1, d2] \<rparr>)
     \<and> data d0 = [JNum (Num 10)] \<and> data d1 = [] \<and> data d2 = [])"
proof -
  let ?types = "[JStr ''Temp'', JStr ''Humidity'', JStr ''Wind'']"
  let ?ts = "[JStr ''2024-01-01T00:00:00Z'']"
  let ?da = "[JArr [JNum (Num 10)], JStr ''n/a'']"
  let ?colors = "JArr [JStr ''#ff0000'']"
  have short: "length ?da < length ?types" by simp
  have ok: "convertible_inputs ?types ?ts ?colors"
    by (simp add: convertible_inputs_def template_fails_def)
  from formatData_short_dataArray [OF short, of ?ts ?colors utc_env] ok
  obtain ls ds where
    run: "formatData utc_env (JArr ?types) (JArr ?ts) (JArr ?da) ?colors =
            ([], Inr \<lparr> labels = ls, datasets = ds \<rparr>)"
    and len: "length ds = length ?types"
    and present: "\<forall>i<length ?da. data (ds ! i) = (case ?da ! i of JArr xs \<Rightarrow> xs | _ \<Rightarrow> [])"
    and missing: "\<forall>i. length ?da \<le> i \<and> i < length ?types \<longrightarrow> data (ds ! i) = []"
    by auto
  from len obtain d0 d1 d2 where ds: "ds = [d0, d1, d2]"
    by (cases ds; cases "tl ds"; cases "tl (tl ds)") auto
  from present [rule_format, of 0] have d0: "data d0 = [JNum (Num 10)]" by (simp add: ds)
  from present [rule_format, of 1] have d1: "data d1 = []" by (simp add: ds)
  from missing [rule_format, of 2] have d2: "data d2 = []" by (simp add: ds)
  from run d0 d1 d2 ok show ?thesis by (simp add: ds)
qed

text \<open>
  Claim C8 says that \<^verbatim>\<open>formatTimestamps\<close> returns the image of its elements on every
  array. On the array \<^verbatim>\<open>[{toString: 1}]\<close> it throws a \<^verbatim>\<open>TypeError\<close>, as \<^verbatim>\<open>new Date\<close> does
  on the element.
\<close>

theorem formatTimestamps_elementwise_counterexample:
  "isArray (JArr [JObj [(''toString'', JNum (Num 1))]])
   \<and> formatTimestamps utc_env (JArr [JObj [(''toString'', JNum (Num 1))]]) = Inl TypeError"
  by (simp add: formatTimestamps_throws)

text \<open>
  Claim C8, amended. \<^verbatim>\<open>formatTimestamps\<close> returns the empty array on every input that is
  not an array, and on the empty array. On an array whose elements all convert to a
  string it returns an array of the same length, its entry \<open>j\<close> being what
  \<^verbatim>\<open>formatTimestamp\<close> returns on element \<open>j\<close>; on any other array it throws a \<^verbatim>\<open>TypeError\<close>.
  A non-empty string that the runtime parses to the time value \<open>t\<close> is formatted as
  \<open>MM-DD HH:MM\<close>, each field the two-digit, zero-padded local-time field of \<open>t\<close> (the
  month counted from 1), the fields being in the ranges the runtime gives them.
\<close>

theorem formatTimestamps_elementwise:
  "(\<not> isArray v \<longrightarrow> formatTimestamps env v = Inr [])
   \<and> formatTimestamps env (JArr []) = Inr []
   \<and> (printable_all ts \<longrightarrow>
        (\<exists>ls. formatTimestamps env (JArr ts) = Inr ls \<and> length ls = length ts
           \<and> (\<forall>j<length ts. formatTimestamp env (ts ! j) = Inr (ls ! j))))
   \<and> (\<not> printable_all ts \<longrightarrow> formatTimestamps env (JArr ts) = Inl TypeError)
   \<and> (s \<noteq> [] \<and> dateParse env s = Some t
        \<and> localMonth env t < 12 \<and> 1 \<le> localDate env t \<and> localDate env t \<le> 31
        \<and> localHours env t < 24 \<and> localMinutes env t < 60 \<longrightarrow>
      formatTimestamp env (JStr s) =
        Inr (two_digits (localMonth env t + 1) @ ''-'' @ two_digits (localDate env t) @ '' '' @
             two_digits (localHours env t) @ '':'' @ two_digits (localMinutes env t)))"
proof (intro conjI impI)
  show "formatTimestamps env v = Inr []" if "\<not> isArray v"
    using that by (rule formatTimestamps_not_array)
  show "formatTimestamps env (JArr []) = Inr []"
    by (simp add: formatTimestamps_def)
  show "\<exists>ls. formatTimestamps env (JArr ts) = Inr ls \<and> length ls = length ts
           \<and> (\<forall>j<length ts. formatTimestamp env (ts ! j) = Inr (ls ! j))"
    if "printable_all ts"
    using that by (rule formatTimestamps_labels)
  show "formatTimestamps env (JArr ts) = Inl TypeError" if "\<not> printable_all ts"
    using that by (rule formatTimestamps_throws)
  show "formatTimestamp env (JStr s) =
        Inr (two_digits (localMonth env t + 1) @ ''-'' @ two_digits (localDate env t) @ '' '' @
             two_digits (localHours env t) @ '':'' @ two_digits (localMinutes env t))"
    if "s \<noteq> [] \<and> dateParse env s = Some t
        \<and> localMonth env t < 12 \<and> 1 \<le> localDate env t \<and> localDate env t \<le> 31
        \<and> localHours env t < 24 \<and> localMinutes env t < 60"
    using that by (intro formatTimestamp_valid) simp_all
qed

theorem formatTimestamps_elementwise_witness:
  "\<not> isArray (JStr ''2024-02-29T13:07:59Z'')
   \<and> formatTimestamps utc_env (JStr ''2024-02-29T13:07:59Z'') = Inr []
   \<and> dateParse utc_env ''2024-02-29T13:07:59Z'' = Some 1709212079000
   \<and> printable_all [JStr ''2024-02-29T13:07:59Z'', JNull]
   \<and> formatTimestamps utc_env (JArr [JStr ''2024-02-29T13:07:59Z'', JNull]) =
       Inr [''02-29 13:07'', ''Invalid Timestamp'']
   \<and> \<not> printable_all [JNull, JObj [(''toString'', JStr ''now'')]]
   \<and> formatTimestamps utc_env (JArr [JNull, JObj [(''toString'', JStr ''now'')]]) =
       Inl TypeError"
proof -
  let ?s = "''2024-02-29T13:07:59Z''"
  let ?t = "1709212079000 :: int"
  have parse: "dateParse utc_env ?s = Some ?t" by code_simp
  have fields: "localMonth utc_env ?t = 1" "localDate utc_env ?t = 29"
    "localHours utc_env ?t = 13" "localMinutes utc_env ?t = 7"
    by code_simp+
  note spec = formatTimestamps_elementwise
    [where v = "JStr ?s" and env = utc_env and ts = "[JStr ?s, JNull]" and s = ?s and t = ?t]
  from spec have not_array: "formatTimestamps utc_env (JStr ?s) = Inr []" by simp
  from spec obtain ls where
    image: "formatTimestamps utc_env (JArr [JStr ?s, JNull]) = Inr ls"
    and len: "length ls = length [JStr ?s, JNull]"
    and each: "\<forall>j<length [JStr ?s, JNull].
        formatTimestamp utc_env ([JStr ?s, JNull] ! j) = Inr (ls ! j)"
    by auto
  from len obtain l0 l1 where ls: "ls = [l0, l1]"
    by (cases ls; cases "tl ls") auto
  from spec parse fields have label: "formatTimestamp utc_env (JStr ?s) = Inr ''02-29 13:07''"
    by (simp add: two_digits_def)
  have null: "formatTimestamp utc_env JNull = Inr ''Invalid Timestamp''"
    by (simp add: formatTimestamp_falsy)
  from each [rule_format, of 0] label have l0: "l0 = ''02-29 13:07''" by (simp add: ls)
  from each [rule_format, of 1] null have l1: "l1 = ''Invalid Timestamp''" by (simp add: ls)
  from formatTimestamps_elementwise
    [where env = utc_env and ts = "[JNull, JObj [(''toString'', JStr ''now'')]]"]
  have thrown: "formatTimestamps utc_env (JArr [JNull, JObj [(''toString'', JStr ''now'')]]) =
       Inl TypeError"
    by simp
  from not_array image parse thrown show ?thesis by (simp add: ls l0 l1)
qed


subsection \<open>Labels\<close>

text \<open>
  Claim C9 says that \<^verbatim>\<open>formatTimestamp\<close> returns the sentinel \<^verbatim>\<open>"Invalid Timestamp"\<close> for
  \<^verbatim>\<open>null\<close>, for \<^verbatim>\<open>undefined\<close> and for a string that does not parse as a date. The code
  at the string \<^verbatim>\<open>"not a date"\<close>: the guard looks at the argument only, the date is
  invalid, and its \<^verbatim>\<open>NaN\<close> fields are formatted in place of the sentinel.
\<close>

theorem formatTimestamp_not_a_date:
  "dateParse utc_env ''not a date'' = None
   \<and> formatTimestamp utc_env (JStr ''not a date'') = Inr ''NaN-NaN NaN:NaN''
   \<and> formatTimestamp utc_env (JStr ''not a date'') \<noteq> Inr ''Invalid Timestamp''"
  by code_simp

text \<open>
  Claim C10. \<^verbatim>\<open>formatTimestamp\<close> returns the sentinel \<^verbatim>\<open>"Invalid Timestamp"\<close> for every falsy
  input, the empty string and the number 0 among them, and for no other input: the guard
  tests the truthiness of the argument. The falsy values are \<^verbatim>\<open>undefined\<close>, \<^verbatim>\<open>null\<close>,
  \<^verbatim>\<open>false\<close>, \<^verbatim>\<open>0\<close>, \<^verbatim>\<open>NaN\<close> and the empty string.
\<close>

theorem formatTimestamp_sentinel_iff_falsy:
  "(formatTimestamp env v = Inr ''Invalid Timestamp'' \<longleftrightarrow> \<not> truthy v)
   \<and> (\<not> truthy v \<longleftrightarrow>
        v \<in> {JUndefined, JNull, JBool False, JNum (Num 0), JNum NaN, JStr []})
   \<and> formatTimestamp env (JStr []) = Inr ''Invalid Timestamp''
   \<and> formatTimestamp env (JNum (Num 0)) = Inr ''Invalid Timestamp''"
proof (intro conjI)
  show "formatTimestamp env v = Inr ''Invalid Timestamp'' \<longleftrightarrow> \<not> truthy v"
  proof
    assume eq: "formatTimestamp env v = Inr ''Invalid Timestamp''"
    show "\<not> truthy v"
    proof
      assume "truthy v"
      then have "CHR ''-'' \<in> set ''Invalid Timestamp''"
        using eq by (rule formatTimestamp_truthy_dash)
      then show False by simp
    qed
  next
    assume "\<not> truthy v"
    then show "formatTimestamp env v = Inr ''Invalid Timestamp''"
      by (rule formatTimestamp_falsy)
  qed
  show "\<not> truthy v \<longleftrightarrow> v \<in> {JUndefined, JNull, JBool False, JNum (Num 0), JNum NaN, JStr []}"
    by (cases v rule: truthy.cases) auto
  show "formatTimestamp env (JStr []) = Inr ''Invalid Timestamp''"
    by (simp add: formatTimestamp_falsy)
  show "formatTimestamp env (JNum (Num 0)) = Inr ''Invalid Timestamp''"
    by (simp add: formatTimestamp_falsy)
qed

theorem formatTimestamp_sentinel_iff_falsy_witness:
  "\<not> truthy (JNum (Num 0))
   \<and> formatTimestamp utc_env (JNum (Num 0)) = Inr ''Invalid Timestamp''
   \<and> truthy (JNum (Num 1704067200000))
   \<and> formatTimestamp utc_env (JNum (Num 1704067200000)) \<noteq> Inr ''Invalid Timestamp''"
  using formatTimestamp_sentinel_iff_falsy [of utc_env "JNum (Num 0)"]
    formatTimestamp_sentinel_iff_falsy [of utc_env "JNum (Num 1704067200000)"]
  by simp

section \<open>Properties of the component\<close>

lemma click_oneD: "click t st ''oneD'' now = action_oneD st now"
  by (simp add: click_def render_buttons_def filterButtons_def action_oneD_def)

lemma click_oneW: "click t st ''oneW'' now = action_oneW st now"
  by (simp add: click_def render_buttons_def filterButtons_def action_oneW_def)

lemma click_oneM: "click t st ''oneM'' now = action_oneM st now"
  by (simp add: click_def render_buttons_def filterButtons_def action_oneM_def)








text \<open>
  Claim C2. A click on a quick-filter button that is not the active one makes it the
  active one, sets the start date to \<^verbatim>\<open>new Date(now - d)\<close> and the end date to \<open>now\<close>, where
  \<open>d\<close> is 1, 7 or 30 days in milliseconds for \<open>oneD\<close>, \<open>oneW\<close> and \<open>oneM\<close>, calls
  \<^verbatim>\<open>filterChange\<close> exactly once, with \<^verbatim>\<open>"Hourly"\<close>, \<^verbatim>\<open>"Daily"\<close> or \<^verbatim>\<open>"Monthly"\<close>, and sets the
  loading flag. For every clock reading \<open>now\<close> that is a time value at least 30 days above
  the least one, \<^verbatim>\<open>new Date(now - d)\<close> is the instant \<open>now - d\<close>.
\<close>

theorem click_inactive_quick_filter:
  "(selectedFilterButton (comp_state c) \<noteq> ''oneD'' \<longrightarrow>
      step t c (Click ''oneD'' now) =
        (c\<lparr> comp_state := (comp_state c)
               \<lparr> selectedFilterButton := ''oneD'',
                 selectedStartDate := JDate (timeClip (now - 86400000)),
                 selectedEndDate := JDate (Some now),
                 selectedFilter := ''Hourly'',
                 loading := True \<rparr> \<rparr>,
         [''Hourly'']))
   \<and> (selectedFilterButton (comp_state c) \<noteq> ''oneW'' \<longrightarrow>
      step t c (Click ''oneW'' now) =
        (c\<lparr> comp_state := (comp_state c)
               \<lparr> selectedFilterButton := ''oneW'',
                 selectedStartDate := JDate (timeClip (now - 604800000)),
                 selectedEndDate := JDate (Some now),
                 selectedFilter := ''Daily'',
                 loading := True \<rparr> \<rparr>,
         [''Daily'']))
   \<and> (selectedFilterButton (comp_state c) \<noteq> ''oneM'' \<longrightarrow>
      step t c (Click ''oneM'' now) =
        (c\<lparr> comp_state := (comp_state c)
               \<lparr> selectedFilterButton := ''oneM'',
                 selectedStartDate := JDate (timeClip (now - 2592000000)),
                 selectedEndDate := JDate (Some now),
                 selectedFilter := ''Monthly'',
                 loading := True \<rparr> \<rparr>,
         [''Monthly'']))
   \<and> (2592000000 - 8640000000000000 \<le> now \<and> now \<le> 8640000000000000 \<longrightarrow>
        timeClip (now - 86400000) = Some (now - 86400000)
      \<and> timeClip (now - 604800000) = Some (now - 604800000)
      \<and> timeClip (now - 2592000000) = Some (now - 2592000000))"
proof (intro conjI impI)
  assume "selectedFilterButton (comp_state c) \<noteq> ''oneD''"
  then show "step t c (Click ''oneD'' now) =
        (c\<lparr> comp_state := (comp_state c)
               \<lparr> selectedFilterButton := ''oneD'',
                 selectedStartDate := JDate (timeClip (now - 86400000)),
                 selectedEndDate := JDate (Some now),
                 selectedFilter := ''Hourly'',
                 loading := True \<rparr> \<rparr>,
         [''Hourly''])"
    by (simp add: click_oneD action_oneD_def)
next
  assume "selectedFilterButton (comp_state c) \<noteq> ''oneW''"
  then show "step t c (Click ''oneW'' now) =
        (c\<lparr> comp_state := (comp_state c)
               \<lparr> selectedFilterButton := ''oneW'',
                 selectedStartDate := JDate (timeClip (now - 604800000)),
                 selectedEndDate := JDate (Some now),
                 selectedFilter := ''Daily'',
                 loading := True \<rparr> \<rparr>,
         [''Daily''])"
    by (simp add: click_oneW action_oneW_def)
next
  assume "selectedFilterButton (comp_state c) \<noteq> ''oneM''"
  then show "step t c (Click ''oneM'' now) =
        (c\<lparr> comp_state := (comp_state c)
               \<lparr> selectedFilterButton := ''oneM'',
                 selectedStartDate := JDate (timeClip (now - 2592000000)),
                 selectedEndDate := JDate (Some now),
                 selectedFilter := ''Monthly'',
                 loading := True \<rparr> \<rparr>,
         [''Monthly''])"
    by (simp add: click_oneM action_oneM_def)
next
  assume "2592000000 - 8640000000000000 \<le> now \<and> now \<le> 8640000000000000"
  then show "timeClip (now - 86400000) = Some (now - 86400000)"
    "timeClip (now - 604800000) = Some (now - 604800000)"
    "timeClip (now - 2592000000) = Some (now - 2592000000)"
    by (simp_all add: timeClip_def abs_le_iff)
qed

theorem click_inactive_quick_filter_witness:
  "selectedFilterButton (comp_state sample_component) \<noteq> ''oneW''
   \<and> step sample_t sample_component (Click ''oneW'' 1704672000000) =
       (sample_component\<lparr> comp_state := (comp_state sample_component)
               \<lparr> selectedFilterButton := ''oneW'',
                 selectedStartDate := JDate (Some 1704067200000),
                 selectedEndDate := JDate (Some 1704672000000),
                 selectedFilter := ''Daily'',
                 loading := True \<rparr> \<rparr>,
        [''Daily''])"
proof -
  have inactive: "selectedFilterButton (comp_state sample_component) \<noteq> ''oneW''"
    by (simp add: sample_component_def initial_state_def)
  have clock: "2592000000 - 8640000000000000 \<le> (1704672000000 :: int)
      \<and> (1704672000000 :: int) \<le> 8640000000000000"
    by simp
  from click_inactive_quick_filter [of sample_component sample_t 1704672000000] inactive clock
  show ?thesis by simp
qed



text \<open>
  Claim C4 says that the label count is recorded only when the component is loading.
  The handler does not read the loading flag: a component that is idle, as it is when
  mounted, records the count of the first redraw.
\<close>

theorem onComplete_idle_counterexample:
  "\<not> loading (comp_state sample_component)
   \<and> dataSize (comp_state sample_component) = 0
   \<and> dataSize (comp_state (fst (step sample_t sample_component (AnimationComplete 1)))) = 1"
  by (simp add: sample_component_def initial_state_def onComplete_def)

text \<open>
  Claim C4, amended. On a redraw-completion signal the component records the label count
  and clears the loading flag if and only if the count differs from the last one
  recorded, whether it is loading or idle; a loading component then becomes idle. With
  an unchanged count nothing changes. No call of \<^verbatim>\<open>filterChange\<close> is made.
\<close>

theorem onComplete_records_on_change:
  "step t c (AnimationComplete n) = (c\<lparr> comp_state := onComplete (comp_state c) n \<rparr>, [])
   \<and> (n \<noteq> dataSize st \<longrightarrow> onComplete st n = st\<lparr> dataSize := n, loading := False \<rparr>)
   \<and> (n = dataSize st \<longrightarrow> onComplete st n = st)
   \<and> (loading st \<and> n \<noteq> dataSize st \<longrightarrow>
        \<not> loading (onComplete st n) \<and> dataSize (onComplete st n) = n)"
  by (simp add: onComplete_def)

theorem onComplete_records_on_change_witness:
  "loading (fst (action_oneW (comp_state sample_component) 1704672000000))
   \<and> 1 \<noteq> dataSize (fst (action_oneW (comp_state sample_component) 1704672000000))
   \<and> \<not> loading (onComplete (fst (action_oneW (comp_state sample_component) 1704672000000)) 1)
   \<and> dataSize (onComplete (fst (action_oneW (comp_state sample_component) 1704672000000)) 1) = 1
   \<and> onComplete (onComplete (fst (action_oneW (comp_state sample_component) 1704672000000)) 1) 1
       = onComplete (fst (action_oneW (comp_state sample_component) 1704672000000)) 1"
proof -
  let ?st = "fst (action_oneW (comp_state sample_component) 1704672000000)"
  have l: "loading ?st" and d: "dataSize ?st = 0"
    by (simp_all add: action_oneW_def sample_component_def initial_state_def)
  have d': "dataSize (onComplete ?st 1) = 1"
    using d by (simp add: onComplete_def)
  from onComplete_records_on_change [of sample_t sample_component 1 ?st]
    onComplete_records_on_change [of sample_t sample_component 1 "onComplete ?st 1"] l d d'
  show ?thesis by simp
qed



end
